theory Spec2Isabelle
  imports Complex_Main "HOL-Library.Product_Lexorder"
begin

section \<open>Calendar dates and the previous-quarter-end boundary\<close>

text \<open>
  A timestamp at midnight is a triple (year, month, day), ordered lexicographically, which
  is the chronological order. Price dates are parsed from day strings, and the boundary
  is built by \<^verbatim>\<open>datetime(year, month, 1) - timedelta(days=1)\<close>, so every timestamp
  that is compared is a midnight. Years are unbounded integers here.
\<close>

type_synonym date = "int \<times> int \<times> int"

definition year :: "date \<Rightarrow> int" where
  "year d = fst d"

definition month :: "date \<Rightarrow> int" where
  "month d = fst (snd d)"

definition is_leap :: "int \<Rightarrow> bool" where
  "is_leap y = (y mod 4 = 0 \<and> (y mod 100 \<noteq> 0 \<or> y mod 400 = 0))"

definition days_in_month :: "int \<Rightarrow> int \<Rightarrow> int" where
  "days_in_month y m =
     (if m = 2 then (if is_leap y then 29 else 28)
      else if m = 4 \<or> m = 6 \<or> m = 9 \<or> m = 11 then 30
      else 31)"

text \<open>\<^verbatim>\<open>d - timedelta(days=1)\<close> on a midnight timestamp.\<close>

fun minus_one_day :: "date \<Rightarrow> date" where
  "minus_one_day (y, m, d) =
     (if 1 < d then (y, m, d - 1)
      else if 1 < m then (y, m - 1, days_in_month y (m - 1))
      else (y - 1, 12, 31))"

text \<open>
  \<^verbatim>\<open>current_quarter_start = (today.month - 1) // 3 * 3 + 1\<close> and
  \<^verbatim>\<open>previous_quarter_end = datetime(today.year, current_quarter_start, 1) - timedelta(days=1)\<close>
  (Dashboard.py, lines 32-34; the same expression is \<^verbatim>\<open>qtd_start_date\<close> in
  1_Stock_Deep_Dive.py, line 43, and the QTD \<^verbatim>\<open>start_date\<close>, line 233).
\<close>

definition current_quarter_start :: "date \<Rightarrow> int" where
  "current_quarter_start today = (month today - 1) div 3 * 3 + 1"

definition previous_quarter_end :: "date \<Rightarrow> date" where
  "previous_quarter_end today =
     minus_one_day (year today, current_quarter_start today, 1)"


section \<open>Numbers\<close>

text \<open>
  Prices, weights and statement items are finite decimals, modelled as reals with exact
  arithmetic. The figures read from a data frame are numpy scalars: dividing one by zero
  does not raise, it gives an infinity or a NaN. \<open>NonFinite\<close> stands for both, and
  arithmetic on it stays non-finite.
\<close>

datatype number = Finite real | NonFinite

definition num_div :: "real \<Rightarrow> real \<Rightarrow> number" where
  "num_div x y = (if y = 0 then NonFinite else Finite (x / y))"

fun lift1 :: "(real \<Rightarrow> real) \<Rightarrow> number \<Rightarrow> number" where
  "lift1 f (Finite x) = Finite (f x)"
| "lift1 f NonFinite = NonFinite"

fun lift2 :: "(real \<Rightarrow> real \<Rightarrow> real) \<Rightarrow> number \<Rightarrow> number \<Rightarrow> number" where
  "lift2 f (Finite x) (Finite y) = Finite (f x y)"
| "lift2 f _ _ = NonFinite"

text \<open>Truthiness of a value that is \<^verbatim>\<open>None\<close> or a number: \<^verbatim>\<open>None\<close> and zero are falsy.\<close>

fun truthy :: "real option \<Rightarrow> bool" where
  "truthy None = False"
| "truthy (Some x) = (x \<noteq> 0)"

datatype error = KeyError | IndexError | TypeError

section \<open>Price history\<close>

record price_point =
  date :: date
  close :: real

text \<open>
  The price endpoint's JSON: \<open>None\<close> when the payload has no \<^verbatim>\<open>historical\<close> key,
  otherwise the list under that key, in the order the API sent it.
\<close>

type_synonym price_api = "string \<Rightarrow> price_point list option"

text \<open>
  Dashboard.py, \<^verbatim>\<open>get_stock_price\<close>. An empty \<^verbatim>\<open>historical\<close> list makes a frame with
  no columns, and \<^verbatim>\<open>prices["date"]\<close> raises KeyError; with a single row
  \<^verbatim>\<open>prices.iloc[-2]\<close> raises IndexError. \<^verbatim>\<open>sort_values\<close> is modelled by the stable
  \<open>sort_key\<close>; dates are unique in a price history.
\<close>

definition get_stock_price ::
  "price_api \<Rightarrow> date \<Rightarrow> string \<Rightarrow> error + (real option \<times> real option \<times> real option)" where
  "get_stock_price api today ticker =
     (case api ticker of
        Some historical \<Rightarrow>
          if historical = [] then Inl KeyError
          else
            let prices = sort_key date historical in
            if length prices < 2 then Inl IndexError
            else
              let current_close = close (prices ! (length prices - 1));
                  yesterday_close = close (prices ! (length prices - 2));
                  previous_quarter_prices =
                    filter (\<lambda>p. date p \<le> previous_quarter_end today) prices;
                  previous_quarter_close =
                    (if previous_quarter_prices \<noteq> []
                     then Some (close (previous_quarter_prices
                                         ! (length previous_quarter_prices - 1)))
                     else None)
              in Inr (Some current_close, Some yesterday_close, previous_quarter_close)
      | None \<Rightarrow> Inr (None, None, None))"

text \<open>
  Dashboard.py, \<^verbatim>\<open>get_sp500_performance\<close>: the guard tests the current and the
  previous-quarter close; the daily return divides by yesterday's close, which the
  guard does not test. \<open>the\<close> is applied only to values the guard has found truthy.
\<close>

definition get_sp500_performance ::
  "price_api \<Rightarrow> date \<Rightarrow> error + (number option \<times> number option)" where
  "get_sp500_performance api today =
     (case get_stock_price api today ''SPY'' of
        Inl e \<Rightarrow> Inl e
      | Inr (spy_current, spy_yesterday, spy_previous_quarter) \<Rightarrow>
          if truthy spy_current \<and> truthy spy_previous_quarter then
            let spy_qtd_return =
                  lift1 (\<lambda>x. x * 100)
                    (num_div (the spy_current - the spy_previous_quarter)
                       (the spy_previous_quarter))
            in (case spy_yesterday of
                  None \<Rightarrow> Inl TypeError
                | Some yesterday \<Rightarrow>
                    let spy_daily_return =
                          lift1 (\<lambda>x. x * 100)
                            (num_div (the spy_current - yesterday) yesterday)
                    in Inr (Some spy_qtd_return, Some spy_daily_return))
          else Inr (None, None))"

section \<open>The performance table\<close>

record holding =
  Tickers :: string
  Weights :: real

text \<open>A row of \<^verbatim>\<open>performance_data\<close> as the loop appends it (Dashboard.py, lines 107-124).\<close>

record entry =
  Ticker :: string
  Weight :: real
  Current_Price :: real
  Yesterdays_Close :: real
  Previous_Quarter_Price :: real
  Quarterly_Return :: number
  Day_Gain :: number

fun performance_data :: "price_api \<Rightarrow> date \<Rightarrow> holding list \<Rightarrow> error + entry list" where
  "performance_data api today [] = Inr []"
| "performance_data api today (row # portfolio) =
     (case get_stock_price api today (Tickers row) of
        Inl e \<Rightarrow> Inl e
      | Inr (current_price, yesterday_price, previous_quarter_price) \<Rightarrow>
          (case performance_data api today portfolio of
             Inl e \<Rightarrow> Inl e
           | Inr rest \<Rightarrow>
               if truthy current_price \<and> truthy yesterday_price
                  \<and> truthy previous_quarter_price
               then
                 let quarterly_return =
                       lift1 (\<lambda>x. x * 100)
                         (num_div (the current_price - the previous_quarter_price)
                            (the previous_quarter_price));
                     day_gain =
                       lift1 (\<lambda>x. x * 100)
                         (num_div (the current_price - the yesterday_price)
                            (the yesterday_price))
                 in Inr (\<lparr>Ticker = Tickers row, Weight = Weights row,
                           Current_Price = the current_price,
                           Yesterdays_Close = the yesterday_price,
                           Previous_Quarter_Price = the previous_quarter_price,
                           Quarterly_Return = quarterly_return,
                           Day_Gain = day_gain\<rparr> # rest)
               else Inr rest))"

text \<open>
  The table: the entries with the column \<^verbatim>\<open>Performance Contribution (%)\<close> added
  (lines 139-141), then every numeric column rounded to two decimals (line 144).
  \<^verbatim>\<open>round\<close> is numpy's: the value times 100 rounded to the nearest integer, halves to
  the even one, divided by 100.
\<close>

record table_row = entry +
  Performance_Contribution :: number

definition rint :: "real \<Rightarrow> int" where
  "rint x =
     (let f = \<lfloor>x\<rfloor>; r = x - of_int f
      in if r < 1 / 2 then f
         else if 1 / 2 < r then f + 1
         else if even f then f else f + 1)"

definition round2 :: "real \<Rightarrow> real" where
  "round2 x = of_int (rint (x * 100)) / 100"

definition add_contribution :: "entry \<Rightarrow> table_row" where
  "add_contribution e =
     entry.extend e
       \<lparr>Performance_Contribution =
          lift1 (\<lambda>x. x / 100) (lift2 (*) (Finite (Weight e)) (Quarterly_Return e))\<rparr>"

definition round_row :: "table_row \<Rightarrow> table_row" where
  "round_row r =
     r\<lparr>Weight := round2 (Weight r),
       Current_Price := round2 (Current_Price r),
       Yesterdays_Close := round2 (Yesterdays_Close r),
       Previous_Quarter_Price := round2 (Previous_Quarter_Price r),
       Quarterly_Return := lift1 round2 (Quarterly_Return r),
       Day_Gain := lift1 round2 (Day_Gain r),
       Performance_Contribution := lift1 round2 (Performance_Contribution r)\<rparr>"

definition performance_df :: "entry list \<Rightarrow> table_row list" where
  "performance_df performance_data_rows = map (round_row \<circ> add_contribution) performance_data_rows"

text \<open>\<^verbatim>\<open>np.sum\<close> of a column of numbers.\<close>

definition np_sum :: "number list \<Rightarrow> number" where
  "np_sum xs = foldr (lift2 (+)) xs (Finite 0)"

text \<open>Dashboard.py, \<^verbatim>\<open>calculate_portfolio_performance\<close>.\<close>

definition calculate_portfolio_performance :: "table_row list \<Rightarrow> number \<times> number" where
  "calculate_portfolio_performance df =
     (let portfolio_qtd_return =
            lift1 (\<lambda>x. x / 100)
              (np_sum (map (\<lambda>r. lift2 (*) (Finite (Weight r)) (Quarterly_Return r)) df));
          portfolio_daily_return =
            lift1 (\<lambda>x. x / 100)
              (np_sum (map (\<lambda>r. lift2 (*) (Finite (Weight r)) (Day_Gain r)) df))
      in (portfolio_qtd_return, portfolio_daily_return))"

text \<open>
  The dashboard's run from the loaded portfolio to the table and the two portfolio
  returns (lines 107-148).
\<close>

definition dashboard ::
  "price_api \<Rightarrow> date \<Rightarrow> holding list \<Rightarrow> error + (table_row list \<times> number \<times> number)" where
  "dashboard api today portfolio =
     (case performance_data api today portfolio of
        Inl e \<Rightarrow> Inl e
      | Inr rows \<Rightarrow>
          let df = performance_df rows
          in Inr (df, calculate_portfolio_performance df))"


section \<open>The deep-dive page: returns\<close>

text \<open>1_Stock_Deep_Dive.py, \<^verbatim>\<open>get_historical_prices\<close>.\<close>

definition get_historical_prices ::
  "price_api \<Rightarrow> string \<Rightarrow> error + price_point list option" where
  "get_historical_prices api ticker =
     (case api ticker of
        Some historical \<Rightarrow>
          if historical = [] then Inl KeyError
          else Inr (Some (sort_key date historical))
      | None \<Rightarrow> Inr None)"

text \<open>
  1_Stock_Deep_Dive.py, \<^verbatim>\<open>calculate_returns\<close>: the guard lets every non-empty frame
  through, and \<^verbatim>\<open>prices.iloc[-2]\<close> raises IndexError on a frame of one row. The
  reference price is the first row whose date is on or after the boundary.
\<close>

definition calculate_returns ::
  "date \<Rightarrow> price_point list option \<Rightarrow> error + (number option \<times> number option)" where
  "calculate_returns today prices_opt =
     (case prices_opt of
        None \<Rightarrow> Inr (None, None)
      | Some prices \<Rightarrow>
          if prices = [] then Inr (None, None)
          else if length prices < 2 then Inl IndexError
          else
            let current_price = close (prices ! (length prices - 1));
                yesterday_price = close (prices ! (length prices - 2));
                qtd_start_date = previous_quarter_end today;
                qtd_prices = filter (\<lambda>p. qtd_start_date \<le> date p) prices;
                qtd_start_price =
                  (if qtd_prices \<noteq> [] then Some (close (qtd_prices ! 0)) else None);
                day_return =
                  (if yesterday_price \<noteq> 0
                   then Some (lift1 (\<lambda>x. x * 100)
                                (num_div (current_price - yesterday_price) yesterday_price))
                   else None);
                qtd_return =
                  (if truthy qtd_start_price
                   then Some (lift1 (\<lambda>x. x * 100)
                                (num_div (current_price - the qtd_start_price)
                                   (the qtd_start_price)))
                   else None)
            in Inr (day_return, qtd_return))"

text \<open>The page's two return figures for a ticker (line 206 and line 208).\<close>

definition deep_dive_returns ::
  "price_api \<Rightarrow> date \<Rightarrow> string \<Rightarrow> error + (number option \<times> number option)" where
  "deep_dive_returns api today ticker =
     (case get_historical_prices api ticker of
        Inl e \<Rightarrow> Inl e
      | Inr stock_prices \<Rightarrow> calculate_returns today stock_prices)"

section \<open>The deep-dive page: fundamentals\<close>

record income_row =
  revenue :: real
  grossProfit :: real
  netIncome :: real
  weightedAverageShsOut :: real
  eps :: real

record cashflow_row =
  freeCashFlow :: real

text \<open>A statement endpoint's answer: the HTTP status and the JSON list, newest quarter first.\<close>

record 'a response =
  status_code :: int
  json :: "'a list"

text \<open>1_Stock_Deep_Dive.py, \<^verbatim>\<open>get_financial_statements\<close>.\<close>

definition get_financial_statements :: "'a response \<Rightarrow> 'a list option" where
  "get_financial_statements r =
     (if status_code r = 200 \<and> json r \<noteq> [] then Some (json r) else None)"

text \<open>\<^verbatim>\<open>column.iloc[-4:]\<close>, and \<^verbatim>\<open>mean()\<close> of a non-empty column.\<close>

definition last4 :: "'a list \<Rightarrow> 'a list" where
  "last4 xs = drop (length xs - 4) xs"

definition mean :: "real list \<Rightarrow> real" where
  "mean xs = sum_list xs / real (length xs)"

text \<open>
  \<^verbatim>\<open>column.iloc[-4:].sum()\<close>. A column read from the JSON is an int64 column when
  every entry is an integer of the int64 range, and a uint64 column when every entry is a
  non-negative integer below \<open>2 ^ 64\<close> and one of them is beyond the int64 range; the sum
  of such a column wraps around. Every other column holds floats or Python integers, and
  is summed exactly here. \<^verbatim>\<open>mean()\<close> adds an integer column up in floats and does not
  wrap.
\<close>

definition integral :: "real \<Rightarrow> bool" where
  "integral x = (of_int \<lfloor>x\<rfloor> = x)"

definition in_int64 :: "real \<Rightarrow> bool" where
  "in_int64 x = (- (2 ^ 63) \<le> x \<and> x < 2 ^ 63)"

definition in_uint64 :: "real \<Rightarrow> bool" where
  "in_uint64 x = (0 \<le> x \<and> x < 2 ^ 64)"

definition wrap_int64 :: "int \<Rightarrow> int" where
  "wrap_int64 i = (i + 2 ^ 63) mod 2 ^ 64 - 2 ^ 63"

definition dtype_sum :: "real list \<Rightarrow> real list \<Rightarrow> real" where
  "dtype_sum column part =
     (let s = sum_list part
      in if list_all integral column then
           if list_all in_int64 column then of_int (wrap_int64 \<lfloor>s\<rfloor>)
           else if list_all in_uint64 column then of_int (\<lfloor>s\<rfloor> mod 2 ^ 64)
           else s
         else s)"

definition ttm_sum :: "real list \<Rightarrow> real" where
  "ttm_sum column = dtype_sum column (last4 column)"

text \<open>The metrics table, one field for each cell that is not constantly \<^verbatim>\<open>None\<close>.\<close>

record metrics =
  cq_revenue :: real
  cq_gross_profit :: real
  cq_net_income :: real
  cq_gross_margin :: "number option"
  cq_net_income_margin :: "number option"
  cq_free_cash_flow :: real
  cq_fcf_per_share :: "number option"
  cq_eps :: real
  yoy_revenue_growth :: "number option"
  yoy_eps_growth :: "number option"
  yoy_fcf_growth :: "number option"
  ttm_revenue :: real
  ttm_gross_profit :: real
  ttm_net_income :: real
  ttm_gross_margin :: "number option"
  ttm_net_income_margin :: "number option"
  ttm_free_cash_flow :: real
  ttm_fcf_per_share :: "number option"
  ttm_eps :: real

text \<open>
  1_Stock_Deep_Dive.py, \<^verbatim>\<open>calculate_financial_metrics\<close>. Both frames are non-empty
  where they are read (\<^verbatim>\<open>get_financial_statements\<close> returns \<^verbatim>\<open>None\<close> for an empty
  list), and \<^verbatim>\<open>iloc[-5]\<close> is read only behind the test of the row count.
\<close>

definition calculate_financial_metrics ::
  "income_row response \<Rightarrow> cashflow_row response \<Rightarrow> metrics option" where
  "calculate_financial_metrics income_response cashflow_response =
     (case (get_financial_statements income_response,
            get_financial_statements cashflow_response) of
        (Some income_api, Some cashflow_api) \<Rightarrow>
          let income_statement = rev income_api;
              cashflow_statement = rev cashflow_api;
              n = length income_statement;
              m = length cashflow_statement;
              revenue_v = revenue (income_statement ! (n - 1));
              gross_profit_v = grossProfit (income_statement ! (n - 1));
              net_income_v = netIncome (income_statement ! (n - 1));
              weighted_avg_shares = weightedAverageShsOut (income_statement ! (n - 1));
              eps_v = eps (income_statement ! (n - 1));
              free_cash_flow = freeCashFlow (cashflow_statement ! (m - 1));
              ttm_revenue_v = ttm_sum (map revenue income_statement);
              ttm_gross_profit_v = ttm_sum (map grossProfit income_statement);
              ttm_net_income_v = ttm_sum (map netIncome income_statement);
              ttm_free_cash_flow_v = ttm_sum (map freeCashFlow cashflow_statement)
          in Some
            \<lparr>cq_revenue = revenue_v,
             cq_gross_profit = gross_profit_v,
             cq_net_income = net_income_v,
             cq_gross_margin =
               (if revenue_v \<noteq> 0 then Some (num_div gross_profit_v revenue_v) else None),
             cq_net_income_margin =
               (if revenue_v \<noteq> 0 then Some (num_div net_income_v revenue_v) else None),
             cq_free_cash_flow = free_cash_flow,
             cq_fcf_per_share =
               (if weighted_avg_shares \<noteq> 0
                then Some (num_div free_cash_flow weighted_avg_shares) else None),
             cq_eps = eps_v,
             yoy_revenue_growth =
               (if 4 < n \<and> revenue (income_statement ! (n - 5)) \<noteq> 0
                then Some (lift1 (\<lambda>x. x - 1)
                             (num_div revenue_v (revenue (income_statement ! (n - 5)))))
                else None),
             yoy_eps_growth =
               (if 4 < n \<and> eps (income_statement ! (n - 5)) \<noteq> 0
                then Some (lift1 (\<lambda>x. x - 1)
                             (num_div eps_v (eps (income_statement ! (n - 5)))))
                else None),
             yoy_fcf_growth =
               (if 4 < m \<and> freeCashFlow (cashflow_statement ! (m - 5)) \<noteq> 0
                then Some (lift1 (\<lambda>x. x - 1)
                             (num_div free_cash_flow
                                (freeCashFlow (cashflow_statement ! (m - 5)))))
                else None),
             ttm_revenue = ttm_revenue_v,
             ttm_gross_profit = ttm_gross_profit_v,
             ttm_net_income = ttm_net_income_v,
             ttm_gross_margin =
               (if ttm_revenue_v \<noteq> 0
                then Some (num_div ttm_gross_profit_v ttm_revenue_v) else None),
             ttm_net_income_margin =
               (if ttm_revenue_v \<noteq> 0
                then Some (num_div ttm_net_income_v ttm_revenue_v) else None),
             ttm_free_cash_flow = ttm_free_cash_flow_v,
             ttm_fcf_per_share =
               (if weighted_avg_shares \<noteq> 0
                then Some (num_div ttm_free_cash_flow_v
                             (mean (last4 (map weightedAverageShsOut income_statement))))
                else None),
             ttm_eps = ttm_sum (map eps income_statement)\<rparr>
      | _ \<Rightarrow> None)"


section \<open>Reference definitions and example data\<close>

text \<open>
  The specification's wording of the return figures, to compare the code with: the
  reference close is the close of the last price point whose date is on or before the
  boundary, found by scanning from the newest point backwards; a return is the change
  relative to the reference, in percent.
\<close>

definition spec_reference_close :: "date \<Rightarrow> price_point list \<Rightarrow> real option" where
  "spec_reference_close boundary ps =
     map_option close (find (\<lambda>p. date p \<le> boundary) (rev ps))"

definition spec_return_pct :: "real \<Rightarrow> real \<Rightarrow> real" where
  "spec_return_pct current reference = (current - reference) / reference * 100"

definition spec_quarter_return :: "date \<Rightarrow> price_point list \<Rightarrow> real option" where
  "spec_quarter_return boundary ps =
     map_option (spec_return_pct (close (last ps))) (spec_reference_close boundary ps)"

text \<open>The close of the first price point whose date is on or after the boundary.\<close>

definition first_close_on_or_after :: "date \<Rightarrow> price_point list \<Rightarrow> real option" where
  "first_close_on_or_after boundary ps =
     map_option close (find (\<lambda>p. boundary \<le> date p) ps)"

text \<open>The price history of the specification's worked example, for ticker A.\<close>

definition example_history :: "price_point list" where
  "example_history =
     [\<lparr>date = (2024, 1, 2), close = 100\<rparr>,
      \<lparr>date = (2024, 3, 28), close = 110\<rparr>,
      \<lparr>date = (2024, 5, 15), close = 121\<rparr>]"

definition example_api :: price_api where
  "example_api = (\<lambda>ticker. if ticker = ''A'' then Some example_history else None)"

text \<open>A history of a single point, and one whose second-to-last close is zero.\<close>

definition one_point_api :: price_api where
  "one_point_api =
     (\<lambda>ticker. if ticker = ''A'' then Some [\<lparr>date = (2024, 5, 15), close = 121\<rparr>] else None)"

definition zero_yesterday_api :: price_api where
  "zero_yesterday_api =
     (\<lambda>ticker. if ticker = ''A''
        then Some [\<lparr>date = (2024, 3, 28), close = 110\<rparr>,
                   \<lparr>date = (2024, 4, 1), close = 110\<rparr>,
                   \<lparr>date = (2024, 5, 14), close = 0\<rparr>,
                   \<lparr>date = (2024, 5, 15), close = 121\<rparr>]
        else None)"

text \<open>A table of the two holdings of the specification's aggregate example.\<close>


definition example_table :: "table_row list" where
  "example_table =
     [\<lparr>Ticker = ''A'', Weight = 60, Current_Price = 110, Yesterdays_Close = 108,
       Previous_Quarter_Price = 100, Quarterly_Return = Finite 10, Day_Gain = Finite 2,
       Performance_Contribution = Finite 6\<rparr>,
      \<lparr>Ticker = ''B'', Weight = 40, Current_Price = 95, Yesterdays_Close = 100,
       Previous_Quarter_Price = 100, Quarterly_Return = Finite (- 5), Day_Gain = Finite (- 5),
       Performance_Contribution = Finite (- 2)\<rparr>]"


text \<open>Histories of the benchmark with a zero close: the previous-quarter one, then yesterday's.\<close>


definition zero_quarter_spy_api :: price_api where
  "zero_quarter_spy_api =
     (\<lambda>ticker. if ticker = ''SPY''
        then Some [\<lparr>date = (2024, 3, 28), close = 0\<rparr>,
                   \<lparr>date = (2024, 5, 14), close = 100\<rparr>,
                   \<lparr>date = (2024, 5, 15), close = 121\<rparr>]
        else None)"



definition zero_yesterday_spy_api :: price_api where
  "zero_yesterday_spy_api =
     (\<lambda>ticker. if ticker = ''SPY''
        then Some [\<lparr>date = (2024, 3, 28), close = 110\<rparr>,
                   \<lparr>date = (2024, 5, 14), close = 0\<rparr>,
                   \<lparr>date = (2024, 5, 15), close = 121\<rparr>]
        else None)"

text \<open>Statements, oldest quarter first, and the answer of an endpoint that sends them.\<close>

definition quarter :: "real \<Rightarrow> real \<Rightarrow> real \<Rightarrow> real \<Rightarrow> real \<Rightarrow> income_row" where
  "quarter r g n s e =
     \<lparr>revenue = r, grossProfit = g, netIncome = n, weightedAverageShsOut = s, eps = e\<rparr>"

definition example_income :: "income_row list" where
  "example_income =
     [quarter 10 4 1 100 1, quarter 20 8 2 100 2, quarter 30 12 3 100 3,
      quarter 40 16 4 100 4, quarter 50 20 5 100 5]"

definition example_cashflow :: "cashflow_row list" where
  "example_cashflow =
     [\<lparr>freeCashFlow = 2\<rparr>, \<lparr>freeCashFlow = 3\<rparr>, \<lparr>freeCashFlow = 4\<rparr>,
      \<lparr>freeCashFlow = 5\<rparr>, \<lparr>freeCashFlow = 6\<rparr>]"

definition ok_response :: "'a list \<Rightarrow> 'a response" where
  "ok_response chronological = \<lparr>status_code = 200, json = rev chronological\<rparr>"

definition cancelling_income :: "income_row list" where
  "cancelling_income = [quarter 10 4 1 (- 5) 1, quarter 20 8 2 5 2]"

definition lapsed_income :: "income_row list" where
  "lapsed_income = [quarter 10 4 1 100 1, quarter 20 8 2 0 2]"

text \<open>A portfolio of the example ticker and one the API has no history for, and its table.\<close>

definition example_portfolio :: "holding list" where
  "example_portfolio = [\<lparr>Tickers = ''A'', Weights = 60\<rparr>, \<lparr>Tickers = ''B'', Weights = 40\<rparr>]"


definition example_run_table :: "table_row list" where
  "example_run_table =
     [\<lparr>Ticker = ''A'', Weight = 60, Current_Price = 121, Yesterdays_Close = 110,
       Previous_Quarter_Price = 110, Quarterly_Return = Finite 10, Day_Gain = Finite 10,
       Performance_Contribution = Finite 6\<rparr>]"

section \<open>Auxiliary facts\<close>

lemmas boundary_defs =
  previous_quarter_end_def current_quarter_start_def year_def month_def days_in_month_def

lemma sort_key_strict: "sorted_wrt (<) (map date ps) \<Longrightarrow> sort_key date ps = ps"
  by (simp add: sort_key_id_if_sorted strict_sorted_imp_sorted)

lemma find_rev_filter:
  "find P (rev xs) = (if filter P xs = [] then None else Some (last (filter P xs)))"
  by (induction xs rule: rev_induct) auto

lemma find_filter:
  "find P xs = (if filter P xs = [] then None else Some (filter P xs ! 0))"
  by (induction xs) auto

lemma nth_last: "xs \<noteq> [] \<Longrightarrow> xs ! (length xs - Suc 0) = last xs"
  by (simp add: last_conv_nth)

lemma get_stock_price_sorted:
  assumes "api ticker = Some ps" "sorted_wrt (<) (map date ps)" "2 \<le> length ps"
  shows "get_stock_price api today ticker =
     Inr (Some (close (last ps)), Some (close (ps ! (length ps - 2))),
          spec_reference_close (previous_quarter_end today) ps)"
proof -
  have ne: "ps \<noteq> []" using assms(3) by auto
  have s: "sort_key date ps = ps" using assms(2) by (rule sort_key_strict)
  show ?thesis using assms(1,3) ne
    by (simp add: get_stock_price_def s Let_def spec_reference_close_def find_rev_filter nth_last)
qed

lemma performance_data_single:
  assumes "api ticker = Some ps" "sorted_wrt (<) (map date ps)" "2 \<le> length ps"
  shows "performance_data api today [\<lparr>Tickers = ticker, Weights = w\<rparr>] =
     Inr (case spec_reference_close (previous_quarter_end today) ps of
            None \<Rightarrow> []
          | Some r \<Rightarrow>
              if close (last ps) \<noteq> 0 \<and> close (ps ! (length ps - 2)) \<noteq> 0 \<and> r \<noteq> 0
              then [\<lparr>Ticker = ticker, Weight = w,
                     Current_Price = close (last ps),
                     Yesterdays_Close = close (ps ! (length ps - 2)),
                     Previous_Quarter_Price = r,
                     Quarterly_Return = Finite (spec_return_pct (close (last ps)) r),
                     Day_Gain = Finite (spec_return_pct (close (last ps))
                                          (close (ps ! (length ps - 2))))\<rparr>]
              else [])"
  by (simp add: get_stock_price_sorted [where api = api and ticker = ticker, OF assms] num_div_def spec_return_pct_def
      split: option.splits)

lemma deep_dive_returns_sorted:
  assumes "api ticker = Some ps" "sorted_wrt (<) (map date ps)" "2 \<le> length ps"
  shows "deep_dive_returns api today ticker =
     Inr (if close (ps ! (length ps - 2)) = 0 then None
          else Some (Finite (spec_return_pct (close (last ps))
                               (close (ps ! (length ps - 2))))),
          case first_close_on_or_after (previous_quarter_end today) ps of
            None \<Rightarrow> None
          | Some r \<Rightarrow>
              if r = 0 then None else Some (Finite (spec_return_pct (close (last ps)) r)))"
proof -
  have ne: "ps \<noteq> []" using assms(3) by auto
  have s: "sort_key date ps = ps" using assms(2) by (rule sort_key_strict)
  show ?thesis using assms(1,3) ne
    by (simp add: deep_dive_returns_def get_historical_prices_def calculate_returns_def s
        Let_def first_close_on_or_after_def find_filter nth_last num_div_def
        spec_return_pct_def)
qed

lemma example_history_facts:
  "example_api ''A'' = Some example_history"
  "sorted_wrt (<) (map date example_history)"
  "2 \<le> length example_history"
  by (simp_all add: example_api_def example_history_def)

lemma np_sum_Finite: "np_sum (map Finite xs) = Finite (sum_list xs)"
  by (induction xs) (simp_all add: np_sum_def)

lemma weighted_column:
  "map col df = map Finite xs \<Longrightarrow>
   map (\<lambda>r. lift2 (*) (Finite (Weight r)) (col r)) df
     = map Finite (map2 (*) (map Weight df) xs)"
  by (induction df arbitrary: xs) auto

lemma finite_column:
  "(\<And>e. e \<in> set rows \<Longrightarrow> \<exists>x. col e = Finite x) \<Longrightarrow> \<exists>xs. map col rows = map Finite xs"
proof (induction rows)
  case Nil
  then show ?case by simp
next
  case (Cons e rows)
  then obtain xs where xs: "map col rows = map Finite xs" by auto
  from Cons.prems obtain x where "col e = Finite x" by auto
  with xs have "map col (e # rows) = map Finite (x # xs)" by simp
  then show ?case by blast
qed

lemma performance_data_rows:
  "performance_data api today portfolio = Inr rows \<Longrightarrow> e \<in> set rows \<Longrightarrow>
   \<exists>c y q. get_stock_price api today (Ticker e) = Inr (Some c, Some y, Some q)
      \<and> c \<noteq> 0 \<and> y \<noteq> 0 \<and> q \<noteq> 0
      \<and> Current_Price e = c \<and> Yesterdays_Close e = y \<and> Previous_Quarter_Price e = q
      \<and> Quarterly_Return e = Finite ((c - q) / q * 100)
      \<and> Day_Gain e = Finite ((c - y) / y * 100)"
proof (induction portfolio arbitrary: rows)
  case Nil
  then show ?case by simp
next
  case (Cons h portfolio)
  from Cons.prems(1) obtain c y q rest where
    g: "get_stock_price api today (Tickers h) = Inr (c, y, q)"
    and r: "performance_data api today portfolio = Inr rest"
    by (auto split: sum.splits)
  show ?case
  proof (cases "truthy c \<and> truthy y \<and> truthy q")
    case False
    with Cons.prems g r have "rows = rest" by auto
    with Cons.IH [OF r] Cons.prems(2) show ?thesis by simp
  next
    case True
    then obtain c' y' q' where v: "c = Some c'" "y = Some y'" "q = Some q'"
      "c' \<noteq> 0" "y' \<noteq> 0" "q' \<noteq> 0"
      by (cases c; cases y; cases q) auto
    let ?row = "\<lparr>Ticker = Tickers h, Weight = Weights h, Current_Price = c',
        Yesterdays_Close = y', Previous_Quarter_Price = q',
        Quarterly_Return = Finite ((c' - q') / q' * 100),
        Day_Gain = Finite ((c' - y') / y' * 100)\<rparr>"
    from Cons.prems(1) g r v have rows: "rows = ?row # rest"
      by (simp add: num_div_def)
    show ?thesis
    proof (cases "e = ?row")
      case True
      with g v show ?thesis by simp
    next
      case False
      with rows Cons.prems(2) have "e \<in> set rest" by simp
      with Cons.IH [OF r] show ?thesis by simp
    qed
  qed
qed

lemma performance_data_skip_head:
  assumes "get_stock_price api today (Tickers h) = Inr (c, y, q)"
    and "\<not> (truthy c \<and> truthy y \<and> truthy q)"
  shows "performance_data api today (h # portfolio) = performance_data api today portfolio"
  using assms by (auto split: sum.splits)


lemma get_stock_price_removed:
  "get_stock_price (api(t := None)) today t' =
     (if t' = t then Inr (None, None, None) else get_stock_price api today t')"
  by (simp add: get_stock_price_def)

lemma performance_data_removed:
  assumes "get_stock_price api today t = Inr (c, y, q)"
    and "\<not> (truthy c \<and> truthy y \<and> truthy q)"
  shows "performance_data (api(t := None)) today portfolio
           = performance_data api today portfolio"
proof (induction portfolio)
  case Nil
  show ?case by simp
next
  case (Cons h portfolio)
  show ?case
  proof (cases "Tickers h = t")
    case True
    have "get_stock_price (api(t := None)) today (Tickers h) = Inr (None, None, None)"
      by (simp add: get_stock_price_removed True)
    then have a: "performance_data (api(t := None)) today (h # portfolio)
        = performance_data (api(t := None)) today portfolio"
      by (rule performance_data_skip_head) simp
    have b: "performance_data api today (h # portfolio)
        = performance_data api today portfolio"
      using assms True by (intro performance_data_skip_head) auto
    show ?thesis unfolding a b by (rule Cons.IH)
  next
    case False
    then have "get_stock_price (api(t := None)) today (Tickers h)
        = get_stock_price api today (Tickers h)"
      by (simp add: get_stock_price_removed)
    then show ?thesis by (simp only: performance_data.simps Cons.IH)
  qed
qed

lemma lifted_column:
  "map col rows = map Finite xs \<Longrightarrow> map (lift1 f \<circ> col) rows = map Finite (map f xs)"
  by (induction rows arbitrary: xs) auto

lemma table_tickers: "map Ticker (performance_df rows) = map Ticker rows"
  by (simp add: performance_df_def round_row_def add_contribution_def entry.defs)


lemma performance_df_columns:
  "map Weight (performance_df rows) = map (round2 \<circ> Weight) rows"
  "map Quarterly_Return (performance_df rows) = map (lift1 round2 \<circ> Quarterly_Return) rows"
  "map Day_Gain (performance_df rows) = map (lift1 round2 \<circ> Day_Gain) rows"
  "map Performance_Contribution (performance_df rows) =
     map (\<lambda>e. lift1 round2 (lift1 (\<lambda>x. x / 100)
                 (lift2 (*) (Finite (Weight e)) (Quarterly_Return e)))) rows"
  by (simp_all add: performance_df_def round_row_def add_contribution_def entry.defs)

lemma performance_data_finite:
  assumes "performance_data api today portfolio = Inr rows"
  shows "\<exists>qs ds. map Quarterly_Return rows = map Finite qs \<and> map Day_Gain rows = map Finite ds"
proof -
  have "\<exists>qs. map Quarterly_Return rows = map Finite qs"
    by (rule finite_column) (use performance_data_rows [OF assms] in blast)
  moreover have "\<exists>ds. map Day_Gain rows = map Finite ds"
    by (rule finite_column) (use performance_data_rows [OF assms] in blast)
  ultimately show ?thesis by blast
qed

lemma dashboard_table_finite:
  assumes "dashboard api today portfolio = Inr (table, pq, pd)"
  shows "(pq, pd) = calculate_portfolio_performance table
    \<and> (\<exists>qs ds. map Quarterly_Return table = map Finite qs \<and> map Day_Gain table = map Finite ds)"
proof -
  from assms obtain rows where rows: "performance_data api today portfolio = Inr rows"
    and table: "table = performance_df rows"
    and sums: "(pq, pd) = calculate_portfolio_performance table"
    by (auto simp add: dashboard_def Let_def split: sum.splits)
  from performance_data_finite [OF rows] obtain qs ds where
    q: "map Quarterly_Return rows = map Finite qs" and d: "map Day_Gain rows = map Finite ds"
    by blast
  have "map Quarterly_Return table = map Finite (map round2 qs)"
    unfolding table performance_df_columns using q by (rule lifted_column)
  moreover have "map Day_Gain table = map Finite (map round2 ds)"
    unfolding table performance_df_columns using d by (rule lifted_column)
  ultimately have "\<exists>qs ds. map Quarterly_Return table = map Finite qs
      \<and> map Day_Gain table = map Finite ds"
    by blast
  with sums show ?thesis by blast
qed

lemma dashboard_tickers:
  assumes "dashboard api today portfolio = Inr (table, pq, pd)" "r \<in> set table"
  shows "\<exists>c y q. get_stock_price api today (Ticker r) = Inr (Some c, Some y, Some q)
      \<and> c \<noteq> 0 \<and> y \<noteq> 0 \<and> q \<noteq> 0"
proof -
  from assms(1) obtain rows where rows: "performance_data api today portfolio = Inr rows"
    and table: "table = performance_df rows"
    by (auto simp add: dashboard_def Let_def split: sum.splits)
  from assms(2) have "Ticker r \<in> set (map Ticker table)" by simp
  then have "Ticker r \<in> set (map Ticker rows)" by (simp only: table table_tickers)
  then obtain e where "e \<in> set rows" "Ticker e = Ticker r" by auto
  with performance_data_rows [OF rows] show ?thesis by metis
qed

lemma integral_sum_list: "list_all integral xs \<Longrightarrow> sum_list xs \<in> \<int>"
  by (induction xs) (auto simp add: integral_def)

lemma nonneg_sum_list: "list_all in_uint64 xs \<Longrightarrow> 0 \<le> sum_list xs"
  by (induction xs) (auto simp add: in_uint64_def)

lemma wrap_int64_in_range: "- (2 ^ 63) \<le> i \<Longrightarrow> i < 2 ^ 63 \<Longrightarrow> wrap_int64 i = i"
  by (simp add: wrap_int64_def)

lemma dtype_sum_exact:
  assumes "set part \<subseteq> set column" "in_int64 (sum_list part)"
  shows "dtype_sum column part = sum_list part"
proof (cases "list_all integral column")
  case False
  then show ?thesis by (simp add: dtype_sum_def)
next
  case True
  with assms(1) have "list_all integral part"
    by (auto simp add: list_all_iff)
  then have "sum_list part \<in> \<int>" by (rule integral_sum_list)
  then obtain i where i: "sum_list part = of_int i" by (auto elim: Ints_cases)
  from assms(2) have r: "- (2 ^ 63) \<le> i" "i < 2 ^ 63"
    unfolding in_int64_def i
    by (metis of_int_le_iff of_int_minus of_int_numeral of_int_power,
        metis of_int_less_iff of_int_numeral of_int_power)
  have w: "wrap_int64 i = i" using r by (rule wrap_int64_in_range)
  have m: "i mod 2 ^ 64 = i" if "list_all in_uint64 column"
  proof -
    from that assms(1) have "list_all in_uint64 part" by (auto simp add: list_all_iff)
    then have "0 \<le> sum_list part" by (rule nonneg_sum_list)
    then have "0 \<le> i" unfolding i by simp
    with r(2) show ?thesis by simp
  qed
  show ?thesis using True w m by (simp add: dtype_sum_def i Let_def)
qed

lemma ttm_sum_exact: "in_int64 (sum_list (last4 column)) \<Longrightarrow> ttm_sum column = sum_list (last4 column)"
  unfolding ttm_sum_def by (rule dtype_sum_exact) (auto simp add: last4_def dest: in_set_dropD)

lemma last4_short: "length xs \<le> 4 \<Longrightarrow> last4 xs = xs"
  by (simp add: last4_def)

lemma calculate_financial_metrics_chronological:
  assumes "status_code ir = 200" "json ir = rev inc" "inc \<noteq> []"
    and "status_code cr = 200" "json cr = rev cf" "cf \<noteq> []"
  shows "calculate_financial_metrics ir cr = Some
     \<lparr>cq_revenue = revenue (last inc),
      cq_gross_profit = grossProfit (last inc),
      cq_net_income = netIncome (last inc),
      cq_gross_margin =
        (if revenue (last inc) \<noteq> 0
         then Some (num_div (grossProfit (last inc)) (revenue (last inc))) else None),
      cq_net_income_margin =
        (if revenue (last inc) \<noteq> 0
         then Some (num_div (netIncome (last inc)) (revenue (last inc))) else None),
      cq_free_cash_flow = freeCashFlow (last cf),
      cq_fcf_per_share =
        (if weightedAverageShsOut (last inc) \<noteq> 0
         then Some (num_div (freeCashFlow (last cf)) (weightedAverageShsOut (last inc)))
         else None),
      cq_eps = eps (last inc),
      yoy_revenue_growth =
        (if 4 < length inc \<and> revenue (inc ! (length inc - 5)) \<noteq> 0
         then Some (lift1 (\<lambda>x. x - 1)
                      (num_div (revenue (last inc)) (revenue (inc ! (length inc - 5)))))
         else None),
      yoy_eps_growth =
        (if 4 < length inc \<and> eps (inc ! (length inc - 5)) \<noteq> 0
         then Some (lift1 (\<lambda>x. x - 1)
                      (num_div (eps (last inc)) (eps (inc ! (length inc - 5)))))
         else None),
      yoy_fcf_growth =
        (if 4 < length cf \<and> freeCashFlow (cf ! (length cf - 5)) \<noteq> 0
         then Some (lift1 (\<lambda>x. x - 1)
                      (num_div (freeCashFlow (last cf))
                         (freeCashFlow (cf ! (length cf - 5)))))
         else None),
      ttm_revenue = ttm_sum (map revenue inc),
      ttm_gross_profit = ttm_sum (map grossProfit inc),
      ttm_net_income = ttm_sum (map netIncome inc),
      ttm_gross_margin =
        (if ttm_sum (map revenue inc) \<noteq> 0
         then Some (num_div (ttm_sum (map grossProfit inc))
                      (ttm_sum (map revenue inc)))
         else None),
      ttm_net_income_margin =
        (if ttm_sum (map revenue inc) \<noteq> 0
         then Some (num_div (ttm_sum (map netIncome inc))
                      (ttm_sum (map revenue inc)))
         else None),
      ttm_free_cash_flow = ttm_sum (map freeCashFlow cf),
      ttm_fcf_per_share =
        (if weightedAverageShsOut (last inc) \<noteq> 0
         then Some (num_div (ttm_sum (map freeCashFlow cf))
                      (mean (last4 (map weightedAverageShsOut inc))))
         else None),
      ttm_eps = ttm_sum (map eps inc)\<rparr>"
  using assms
  by (simp add: calculate_financial_metrics_def get_financial_statements_def Let_def nth_last)

lemmas run_defs =
  dashboard_def performance_df_def round_row_def add_contribution_def entry.defs
  calculate_portfolio_performance_def np_sum_def round2_def rint_def
  get_stock_price_def num_div_def boundary_defs

lemma example_dashboard:
  "dashboard example_api (2024, 5, 15) example_portfolio
     = Inr (example_run_table, Finite 6, Finite 6)"
  by (simp add: example_api_def example_history_def example_portfolio_def
      example_run_table_def run_defs)





lemma example_responses:
  "status_code (ok_response xs) = 200" "json (ok_response xs) = rev xs"
  by (simp_all add: ok_response_def)

lemma spy_zero_yesterday: "get_sp500_performance zero_yesterday_spy_api (2024, 5, 15)
     = Inr (Some (Finite 10), Some NonFinite)"
proof -
  have "get_stock_price zero_yesterday_spy_api (2024, 5, 15) ''SPY''
      = Inr (Some 121, Some 0, Some 110)"
    by (simp add: get_stock_price_def zero_yesterday_spy_api_def boundary_defs)
  then show ?thesis by (simp add: get_sp500_performance_def num_div_def)
qed

lemma example_cashflow_nonempty: "example_cashflow \<noteq> []"
  by (simp add: example_cashflow_def)

lemma example_cashflow_ttm: "ttm_sum (map freeCashFlow example_cashflow) = 18"
proof -
  have "in_int64 (sum_list (last4 (map freeCashFlow example_cashflow)))"
    by (simp add: example_cashflow_def last4_def in_int64_def)
  then show ?thesis
    by (simp add: ttm_sum_exact) (simp add: example_cashflow_def last4_def)
qed

lemma cancelling_shares: "map_option ttm_fcf_per_share
       (calculate_financial_metrics (ok_response cancelling_income)
          (ok_response example_cashflow)) = Some (Some NonFinite)"
proof -
  have ne: "cancelling_income \<noteq> []" "example_cashflow \<noteq> []"
    by (simp_all add: cancelling_income_def example_cashflow_def)
  show ?thesis
    unfolding calculate_financial_metrics_chronological
      [OF example_responses ne(1) example_responses ne(2)] example_cashflow_ttm
    by (simp add: cancelling_income_def quarter_def last4_def mean_def num_div_def)
qed

lemma lapsed_shares: "map_option ttm_fcf_per_share
       (calculate_financial_metrics (ok_response lapsed_income)
          (ok_response example_cashflow)) = Some None
   \<and> mean (last4 (map weightedAverageShsOut lapsed_income)) = 50"
proof -
  have ne: "lapsed_income \<noteq> []" "example_cashflow \<noteq> []"
    by (simp_all add: lapsed_income_def example_cashflow_def)
  show ?thesis
    unfolding calculate_financial_metrics_chronological
      [OF example_responses ne(1) example_responses ne(2)] example_cashflow_ttm
    by (simp add: lapsed_income_def quarter_def last4_def mean_def num_div_def)
qed

section \<open>The quarter boundary\<close>

text \<open>
  Claim C8. For every evaluation date (with a month from 1 to 12), the month that starts
  the quarter containing it is one of 1, 4, 7, 10, and the previous-quarter-end boundary
  is the day before the first day of that month: 31 December of the year before, 31
  March, 30 June or 30 September. For 2024-05-15 the boundary is 2024-03-31, for
  2024-01-15 it is 2023-12-31.
\<close>

theorem previous_quarter_end_is_day_before_quarter_start:
  assumes "1 \<le> month today" "month today \<le> 12"
  shows "current_quarter_start today \<in> {1, 4, 7, 10}
    \<and> current_quarter_start today \<le> month today
    \<and> month today < current_quarter_start today + 3
    \<and> previous_quarter_end today = minus_one_day (year today, current_quarter_start today, 1)
    \<and> previous_quarter_end today =
        (if month today \<le> 3 then (year today - 1, 12, 31)
         else if month today \<le> 6 then (year today, 3, 31)
         else if month today \<le> 9 then (year today, 6, 30)
         else (year today, 9, 30))
    \<and> previous_quarter_end (2024, 5, 15) = (2024, 3, 31)
    \<and> previous_quarter_end (2024, 1, 15) = (2023, 12, 31)"
proof -
  have "month today = 1 \<or> month today = 2 \<or> month today = 3 \<or> month today = 4
      \<or> month today = 5 \<or> month today = 6 \<or> month today = 7 \<or> month today = 8
      \<or> month today = 9 \<or> month today = 10 \<or> month today = 11 \<or> month today = 12"
    using assms by arith
  then have general:
    "current_quarter_start today \<in> {1, 4, 7, 10}
     \<and> current_quarter_start today \<le> month today
     \<and> month today < current_quarter_start today + 3
     \<and> previous_quarter_end today =
        (if month today \<le> 3 then (year today - 1, 12, 31)
         else if month today \<le> 6 then (year today, 3, 31)
         else if month today \<le> 9 then (year today, 6, 30)
         else (year today, 9, 30))"
    by (auto simp add: previous_quarter_end_def current_quarter_start_def days_in_month_def)
  have examples:
    "previous_quarter_end (2024, 5, 15) = (2024, 3, 31)"
    "previous_quarter_end (2024, 1, 15) = (2023, 12, 31)"
    by (simp_all add: boundary_defs)
  show ?thesis
    using general examples by (simp add: previous_quarter_end_def)
qed

theorem previous_quarter_end_witness:
  "current_quarter_start (2024, 11, 4) = 10
   \<and> previous_quarter_end (2024, 11, 4) = (2024, 9, 30)
   \<and> minus_one_day (2024, 10, 1) = (2024, 9, 30)"
proof -
  have h: "1 \<le> month (2024, 11, 4)" "month (2024, 11, 4) \<le> 12"
    by (simp_all add: month_def)
  show ?thesis
    using previous_quarter_end_is_day_before_quarter_start [OF h]
    by (simp add: boundary_defs)
qed

section \<open>Quarter and day returns of one price history\<close>

text \<open>
  Claim C1 at the specification's example history, evaluated on 2024-05-15. The rule of
  the claim gives the reference close 110 (the last point on or before the boundary
  2024-03-31) and the quarter return 10. The dashboard reads that reference. The
  deep-dive page takes the first point on or after the boundary, the close 121 of
  2024-05-15, and reports a QTD return of 0 instead of 10.
\<close>

theorem deep_dive_qtd_reference_divergence:
  "spec_quarter_return (previous_quarter_end (2024, 5, 15)) example_history = Some 10
   \<and> get_stock_price example_api (2024, 5, 15) ''A'' = Inr (Some 121, Some 110, Some 110)
   \<and> deep_dive_returns example_api (2024, 5, 15) ''A''
       = Inr (Some (Finite 10), Some (Finite 0))"
  by (simp add: spec_quarter_return_def spec_reference_close_def spec_return_pct_def
      example_history_def example_api_def get_stock_price_def deep_dive_returns_def
      get_historical_prices_def calculate_returns_def boundary_defs num_div_def)

text \<open>
  Claim C2, as stated, fails at two inputs. A history of one point makes both pages raise
  IndexError instead of reporting the day return unavailable; and a history of four
  points whose second-to-last close is zero has no day return on the deep-dive page,
  while its QTD return is computed.
\<close>

theorem day_return_counterexample:
  "deep_dive_returns one_point_api (2024, 5, 15) ''A'' = Inl IndexError
   \<and> get_stock_price one_point_api (2024, 5, 15) ''A'' = Inl IndexError
   \<and> deep_dive_returns zero_yesterday_api (2024, 5, 15) ''A'' = Inr (None, Some (Finite 10))"
  by (simp add: one_point_api_def zero_yesterday_api_def get_stock_price_def
      deep_dive_returns_def get_historical_prices_def calculate_returns_def boundary_defs
      num_div_def)

text \<open>
  Claim C2, amended. For every price history of at least two points, strictly ascending
  by date: the deep-dive day return is (last close - second-to-last close) /
  second-to-last close * 100 when the second-to-last close is nonzero, and unavailable
  when it is zero; the dashboard gives a holding that day gain when its current,
  second-to-last and previous-quarter closes are all available and nonzero, and no row
  otherwise.
\<close>

theorem day_return_of_last_two_closes:
  assumes "api ticker = Some ps" "sorted_wrt (<) (map date ps)" "2 \<le> length ps"
  shows "(\<exists>q. deep_dive_returns api today ticker
              = Inr (if close (ps ! (length ps - 2)) = 0 then None
                     else Some (Finite ((close (last ps) - close (ps ! (length ps - 2)))
                                          / close (ps ! (length ps - 2)) * 100)),
                     q))
    \<and> (\<exists>rows. performance_data api today [\<lparr>Tickers = ticker, Weights = w\<rparr>] = Inr rows
          \<and> map Day_Gain rows =
              (if close (last ps) \<noteq> 0 \<and> close (ps ! (length ps - 2)) \<noteq> 0
                  \<and> truthy (spec_reference_close (previous_quarter_end today) ps)
               then [Finite ((close (last ps) - close (ps ! (length ps - 2)))
                               / close (ps ! (length ps - 2)) * 100)]
               else []))"
proof -
  note p = performance_data_single [where api = api and ticker = ticker, OF assms]
  note d = deep_dive_returns_sorted [where api = api and ticker = ticker, OF assms]
  show ?thesis
    unfolding p d spec_return_pct_def by (auto split: option.splits)
qed

theorem day_return_of_last_two_closes_witness:
  "(\<exists>q. deep_dive_returns example_api (2024, 5, 15) ''A'' = Inr (Some (Finite 10), q))
   \<and> (\<exists>rows. performance_data example_api (2024, 5, 15) [\<lparr>Tickers = ''A'', Weights = 60\<rparr>]
                = Inr rows
         \<and> map Day_Gain rows = [Finite 10])"
proof -
  have r: "spec_reference_close (previous_quarter_end (2024, 5, 15)) example_history
             = Some 110"
    by (simp add: spec_reference_close_def example_history_def boundary_defs)
  have v: "close (last example_history) = 121"
    "close (example_history ! (length example_history - 2)) = 110"
    by (simp_all add: example_history_def)
  show ?thesis
    using day_return_of_last_two_closes [where api = example_api and ticker = "''A''"
        and today = "(2024, 5, 15)" and w = 60, OF example_history_facts]
    unfolding r v by simp
qed

section \<open>The portfolio aggregate\<close>

text \<open>
  Claim C4. For every performance table whose quarterly-return and day-gain columns hold
  the numbers \<open>qs\<close> and \<open>ds\<close>, the portfolio quarter return is the sum of weight times
  quarterly return over the rows, divided by 100, and the portfolio day return is the sum
  of weight times day gain, divided by 100, both computed exactly; and every run of the
  dashboard reports these two sums of the table it shows, whose return columns only hold
  numbers. The table of holdings (60, 10) and (40, -5) gives a quarter return of 4.
\<close>

theorem portfolio_returns_are_weighted_sums:
  "(map Quarterly_Return df = map Finite qs \<longrightarrow>
      fst (calculate_portfolio_performance df)
        = Finite (sum_list (map2 (*) (map Weight df) qs) / 100))
   \<and> (map Day_Gain df = map Finite ds \<longrightarrow>
      snd (calculate_portfolio_performance df)
        = Finite (sum_list (map2 (*) (map Weight df) ds) / 100))
   \<and> (dashboard api today portfolio = Inr (table, pq, pd) \<longrightarrow>
      (pq, pd) = calculate_portfolio_performance table
      \<and> (\<exists>tq td. map Quarterly_Return table = map Finite tq
             \<and> map Day_Gain table = map Finite td))"
proof -
  have "fst (calculate_portfolio_performance df)
      = Finite (sum_list (map2 (*) (map Weight df) qs) / 100)"
    if c: "map Quarterly_Return df = map Finite qs"
    unfolding calculate_portfolio_performance_def Let_def weighted_column [OF c] np_sum_Finite
    by simp
  moreover have "snd (calculate_portfolio_performance df)
      = Finite (sum_list (map2 (*) (map Weight df) ds) / 100)"
    if c: "map Day_Gain df = map Finite ds"
    unfolding calculate_portfolio_performance_def Let_def weighted_column [OF c] np_sum_Finite
    by simp
  moreover note dashboard_table_finite [of api today portfolio table pq pd]
  ultimately show ?thesis by blast
qed

theorem portfolio_returns_witness:
  "fst (calculate_portfolio_performance example_table) = Finite 4
   \<and> snd (calculate_portfolio_performance example_table) = Finite (- (4 / 5))
   \<and> calculate_portfolio_performance example_run_table = (Finite 6, Finite 6)"
proof -
  have q: "map Quarterly_Return example_table = map Finite [10, - 5]"
    and d: "map Day_Gain example_table = map Finite [2, - 5]"
    by (simp_all add: example_table_def)
  show ?thesis
    using portfolio_returns_are_weighted_sums
      [where df = example_table and qs = "[10, - 5]" and ds = "[2, - 5]"
        and api = example_api and today = "(2024, 5, 15)" and portfolio = example_portfolio
        and table = example_run_table and pq = "Finite 6" and pd = "Finite 6"]
      q d example_dashboard
    by (simp add: example_table_def)
qed



text \<open>
  Claim C9. A holding whose fetched current, previous-day or previous-quarter close is
  exactly 0 is treated as one with missing data: the dashboard's result is the one it has
  when the API has no history for that ticker, and the ticker has no row in the table.
  Likewise a zero current or previous-quarter close of SPY makes both benchmark returns
  unavailable, as they are without SPY data.
\<close>

theorem zero_price_is_treated_as_missing:
  assumes "get_stock_price api today t = Inr (c, y, q)"
    and "c = Some 0 \<or> y = Some 0 \<or> q = Some 0"
  shows "dashboard api today portfolio = dashboard (api(t := None)) today portfolio
    \<and> (\<forall>table pq pd. dashboard api today portfolio = Inr (table, pq, pd) \<longrightarrow>
          t \<notin> set (map Ticker table))
    \<and> (get_stock_price spy_api today ''SPY'' = Inr (sc, sy, sq) \<and> (sc = Some 0 \<or> sq = Some 0)
        \<longrightarrow> get_sp500_performance spy_api today = Inr (None, None)
          \<and> get_sp500_performance (spy_api(''SPY'' := None)) today = Inr (None, None))"
proof -
  from assms(2) have f: "\<not> (truthy c \<and> truthy y \<and> truthy q)" by auto
  have same: "dashboard api today portfolio = dashboard (api(t := None)) today portfolio"
    by (simp add: dashboard_def performance_data_removed [OF assms(1) f])
  have out: "t \<notin> set (map Ticker table)"
    if d: "dashboard api today portfolio = Inr (table, pq, pd)" for table pq pd
  proof
    assume "t \<in> set (map Ticker table)"
    then obtain r where "r \<in> set table" "Ticker r = t" by auto
    with dashboard_tickers [OF d] assms show False by fastforce
  qed
  have spy: "get_sp500_performance spy_api today = Inr (None, None)
      \<and> get_sp500_performance (spy_api(''SPY'' := None)) today = Inr (None, None)"
    if "get_stock_price spy_api today ''SPY'' = Inr (sc, sy, sq)" "sc = Some 0 \<or> sq = Some 0"
    using that by (auto simp add: get_sp500_performance_def get_stock_price_removed)
  from same out spy show ?thesis by blast
qed

theorem zero_price_witness:
  "get_stock_price zero_yesterday_api (2024, 5, 15) ''A'' = Inr (Some 121, Some 0, Some 110)
   \<and> dashboard zero_yesterday_api (2024, 5, 15) [\<lparr>Tickers = ''A'', Weights = 60\<rparr>]
       = dashboard (zero_yesterday_api(''A'' := None)) (2024, 5, 15)
           [\<lparr>Tickers = ''A'', Weights = 60\<rparr>]
   \<and> dashboard zero_yesterday_api (2024, 5, 15) [\<lparr>Tickers = ''A'', Weights = 60\<rparr>]
       = Inr ([], Finite 0, Finite 0)
   \<and> get_stock_price zero_quarter_spy_api (2024, 5, 15) ''SPY''
       = Inr (Some 121, Some 100, Some 0)
   \<and> get_sp500_performance zero_quarter_spy_api (2024, 5, 15) = Inr (None, None)"
proof -
  have g: "get_stock_price zero_yesterday_api (2024, 5, 15) ''A''
      = Inr (Some 121, Some 0, Some 110)"
    by (simp add: get_stock_price_def zero_yesterday_api_def boundary_defs)
  have s: "get_stock_price zero_quarter_spy_api (2024, 5, 15) ''SPY''
      = Inr (Some 121, Some 100, Some 0)"
    by (simp add: get_stock_price_def zero_quarter_spy_api_def boundary_defs)
  have e: "dashboard (zero_yesterday_api(''A'' := None)) (2024, 5, 15)
      [\<lparr>Tickers = ''A'', Weights = 60\<rparr>] = Inr ([], Finite 0, Finite 0)"
    by (simp add: get_stock_price_removed dashboard_def performance_df_def
        calculate_portfolio_performance_def np_sum_def)
  show ?thesis
    using zero_price_is_treated_as_missing [OF g, where portfolio = "[\<lparr>Tickers = ''A'', Weights = 60\<rparr>]"
        and spy_api = zero_quarter_spy_api and sc = "Some 121" and sy = "Some 100"
        and sq = "Some 0"]
      g s e
    by simp
qed

section \<open>Performance contributions\<close>




section \<open>Guards of the ratios\<close>

text \<open>
  Claim C3 at three inputs. With SPY closes 110 (before the boundary), 0 (yesterday) and
  121 (today), the benchmark's daily return is a division by zero: a non-finite number,
  not an unavailable value. The guard of the TTM free cash flow per share tests the
  shares of the last quarter while the division is by the mean of the last four: with
  shares -5 and 5 the guard passes and the mean is zero, and with shares 100 and 0 the
  figure is unavailable although the mean, 50, is not zero.
\<close>

theorem unguarded_denominators:
  "get_sp500_performance zero_yesterday_spy_api (2024, 5, 15)
     = Inr (Some (Finite 10), Some NonFinite)
   \<and> map_option ttm_fcf_per_share
       (calculate_financial_metrics (ok_response cancelling_income)
          (ok_response example_cashflow)) = Some (Some NonFinite)
   \<and> map_option ttm_fcf_per_share
       (calculate_financial_metrics (ok_response lapsed_income)
          (ok_response example_cashflow)) = Some None
   \<and> mean (last4 (map weightedAverageShsOut lapsed_income)) = 50"
  using spy_zero_yesterday cancelling_shares lapsed_shares by blast

section \<open>Fundamentals\<close>

text \<open>
  Claim C7. For statements that were fetched (status 200, a non-empty list, newest
  quarter first; \<open>inc\<close> and \<open>cf\<close> are the income and cash-flow periods in
  chronological order): with at least 5 periods and a nonzero value in the fifth period
  from the end, the year-over-year growth of revenue, of EPS and of free cash flow is the
  last period's value divided by that of the fifth from the end, minus 1; with fewer than
  5 periods the growth figure is unavailable, while the metrics are still produced.
\<close>

theorem yoy_growth_needs_five_periods:
  assumes "status_code ir = 200" "json ir = rev inc" "inc \<noteq> []"
    and "status_code cr = 200" "json cr = rev cf" "cf \<noteq> []"
  shows "(5 \<le> length inc \<and> revenue (inc ! (length inc - 5)) \<noteq> 0 \<longrightarrow>
        map_option yoy_revenue_growth (calculate_financial_metrics ir cr)
          = Some (Some (Finite (revenue (last inc) / revenue (inc ! (length inc - 5)) - 1))))
    \<and> (5 \<le> length inc \<and> eps (inc ! (length inc - 5)) \<noteq> 0 \<longrightarrow>
        map_option yoy_eps_growth (calculate_financial_metrics ir cr)
          = Some (Some (Finite (eps (last inc) / eps (inc ! (length inc - 5)) - 1))))
    \<and> (5 \<le> length cf \<and> freeCashFlow (cf ! (length cf - 5)) \<noteq> 0 \<longrightarrow>
        map_option yoy_fcf_growth (calculate_financial_metrics ir cr)
          = Some (Some (Finite (freeCashFlow (last cf)
                                  / freeCashFlow (cf ! (length cf - 5)) - 1))))
    \<and> (length inc < 5 \<longrightarrow>
        map_option yoy_revenue_growth (calculate_financial_metrics ir cr) = Some None
        \<and> map_option yoy_eps_growth (calculate_financial_metrics ir cr) = Some None)
    \<and> (length cf < 5 \<longrightarrow>
        map_option yoy_fcf_growth (calculate_financial_metrics ir cr) = Some None)"
  unfolding calculate_financial_metrics_chronological [OF assms]
  by (simp add: num_div_def)

theorem yoy_growth_witness:
  "map_option yoy_revenue_growth
     (calculate_financial_metrics (ok_response example_income) (ok_response example_cashflow))
     = Some (Some (Finite 4))
   \<and> map_option yoy_eps_growth
     (calculate_financial_metrics (ok_response example_income) (ok_response example_cashflow))
     = Some (Some (Finite 4))
   \<and> map_option yoy_fcf_growth
     (calculate_financial_metrics (ok_response example_income) (ok_response example_cashflow))
     = Some (Some (Finite 2))
   \<and> map_option yoy_revenue_growth
     (calculate_financial_metrics (ok_response (take 4 example_income))
        (ok_response (take 4 example_cashflow))) = Some None
   \<and> map_option yoy_eps_growth
     (calculate_financial_metrics (ok_response (take 4 example_income))
        (ok_response (take 4 example_cashflow))) = Some None
   \<and> map_option yoy_fcf_growth
     (calculate_financial_metrics (ok_response (take 4 example_income))
        (ok_response (take 4 example_cashflow))) = Some None"
proof -
  have five:
    "status_code (ok_response example_income) = 200"
    "json (ok_response example_income) = rev example_income"
    "example_income \<noteq> []"
    "status_code (ok_response example_cashflow) = 200"
    "json (ok_response example_cashflow) = rev example_cashflow"
    "example_cashflow \<noteq> []"
    by (simp_all add: ok_response_def example_income_def example_cashflow_def)
  have four:
    "status_code (ok_response (take 4 example_income)) = 200"
    "json (ok_response (take 4 example_income)) = rev (take 4 example_income)"
    "take 4 example_income \<noteq> []"
    "status_code (ok_response (take 4 example_cashflow)) = 200"
    "json (ok_response (take 4 example_cashflow)) = rev (take 4 example_cashflow)"
    "take 4 example_cashflow \<noteq> []"
    by (simp_all add: ok_response_def example_income_def example_cashflow_def)
  show ?thesis
    using yoy_growth_needs_five_periods [OF five] yoy_growth_needs_five_periods [OF four]
    by (simp add: example_income_def example_cashflow_def quarter_def)
qed

text \<open>
  Claim C10. For fetched statements (status 200, a non-empty list, newest quarter first;
  \<open>inc\<close> and \<open>cf\<close> are the income and cash-flow periods in chronological order) and
  sums within the int64 range: with fewer than 4 income periods, the TTM revenue, gross
  profit, net income and EPS are the sums over all the periods there are, the TTM margins
  are the ratios of these sums (unavailable only when the summed revenue is zero), and
  the TTM free cash flow per share is the TTM free cash flow over the mean of the shares
  of all periods (unavailable only when the last quarter's shares are zero); with fewer
  than 4 cash-flow periods, the TTM free cash flow is the sum over all of them. None of
  these is unavailable for lack of history.
\<close>

theorem ttm_over_short_history:
  assumes "status_code ir = 200" "json ir = rev inc" "inc \<noteq> []"
    and "status_code cr = 200" "json cr = rev cf" "cf \<noteq> []"
  shows "(length inc < 4 \<and> in_int64 (sum_list (map revenue inc)) \<longrightarrow>
        map_option ttm_revenue (calculate_financial_metrics ir cr)
          = Some (sum_list (map revenue inc)))
    \<and> (length inc < 4 \<and> in_int64 (sum_list (map grossProfit inc)) \<longrightarrow>
        map_option ttm_gross_profit (calculate_financial_metrics ir cr)
          = Some (sum_list (map grossProfit inc)))
    \<and> (length inc < 4 \<and> in_int64 (sum_list (map netIncome inc)) \<longrightarrow>
        map_option ttm_net_income (calculate_financial_metrics ir cr)
          = Some (sum_list (map netIncome inc)))
    \<and> (length inc < 4 \<and> in_int64 (sum_list (map eps inc)) \<longrightarrow>
        map_option ttm_eps (calculate_financial_metrics ir cr)
          = Some (sum_list (map eps inc)))
    \<and> (length cf < 4 \<and> in_int64 (sum_list (map freeCashFlow cf)) \<longrightarrow>
        map_option ttm_free_cash_flow (calculate_financial_metrics ir cr)
          = Some (sum_list (map freeCashFlow cf)))
    \<and> (length inc < 4 \<and> in_int64 (sum_list (map revenue inc))
          \<and> in_int64 (sum_list (map grossProfit inc)) \<longrightarrow>
        map_option ttm_gross_margin (calculate_financial_metrics ir cr)
          = Some (if sum_list (map revenue inc) = 0 then None
                  else Some (Finite (sum_list (map grossProfit inc)
                                       / sum_list (map revenue inc)))))
    \<and> (length inc < 4 \<and> in_int64 (sum_list (map revenue inc))
          \<and> in_int64 (sum_list (map netIncome inc)) \<longrightarrow>
        map_option ttm_net_income_margin (calculate_financial_metrics ir cr)
          = Some (if sum_list (map revenue inc) = 0 then None
                  else Some (Finite (sum_list (map netIncome inc)
                                       / sum_list (map revenue inc)))))
    \<and> (length inc < 4 \<longrightarrow>
        map_option ttm_fcf_per_share (calculate_financial_metrics ir cr)
          = Some (if weightedAverageShsOut (last inc) = 0 then None
                  else if sum_list (map weightedAverageShsOut inc) = 0 then Some NonFinite
                  else Some (Finite (ttm_sum (map freeCashFlow cf)
                                       / (sum_list (map weightedAverageShsOut inc)
                                            / real (length inc))))))
    \<and> (length cf < 4 \<and> in_int64 (sum_list (map freeCashFlow cf)) \<longrightarrow>
        ttm_sum (map freeCashFlow cf) = sum_list (map freeCashFlow cf))"
proof -
  note m = calculate_financial_metrics_chronological [OF assms]
  have short_inc: "ttm_sum (map f inc) = sum_list (map f inc)"
    if "length inc < 4" "in_int64 (sum_list (map f inc))" for f :: "income_row \<Rightarrow> real"
    using that by (simp add: ttm_sum_exact last4_short)
  have short_cf: "ttm_sum (map freeCashFlow cf) = sum_list (map freeCashFlow cf)"
    if "length cf < 4" "in_int64 (sum_list (map freeCashFlow cf))"
    using that by (simp add: ttm_sum_exact last4_short)
  have shares: "last4 (map weightedAverageShsOut inc) = map weightedAverageShsOut inc"
    if "length inc < 4"
    using that by (simp add: last4_short)
  have c1: "length inc < 4 \<and> in_int64 (sum_list (map revenue inc)) \<longrightarrow>
        map_option ttm_revenue (calculate_financial_metrics ir cr)
          = Some (sum_list (map revenue inc))"
    unfolding m by (simp add: short_inc)
  have c2: "length inc < 4 \<and> in_int64 (sum_list (map grossProfit inc)) \<longrightarrow>
        map_option ttm_gross_profit (calculate_financial_metrics ir cr)
          = Some (sum_list (map grossProfit inc))"
    unfolding m by (simp add: short_inc)
  have c3: "length inc < 4 \<and> in_int64 (sum_list (map netIncome inc)) \<longrightarrow>
        map_option ttm_net_income (calculate_financial_metrics ir cr)
          = Some (sum_list (map netIncome inc))"
    unfolding m by (simp add: short_inc)
  have c4: "length inc < 4 \<and> in_int64 (sum_list (map eps inc)) \<longrightarrow>
        map_option ttm_eps (calculate_financial_metrics ir cr)
          = Some (sum_list (map eps inc))"
    unfolding m by (simp add: short_inc)
  have c5: "length cf < 4 \<and> in_int64 (sum_list (map freeCashFlow cf)) \<longrightarrow>
        map_option ttm_free_cash_flow (calculate_financial_metrics ir cr)
          = Some (sum_list (map freeCashFlow cf))"
    unfolding m by (simp add: short_cf)
  have c6: "length inc < 4 \<and> in_int64 (sum_list (map revenue inc))
          \<and> in_int64 (sum_list (map grossProfit inc)) \<longrightarrow>
        map_option ttm_gross_margin (calculate_financial_metrics ir cr)
          = Some (if sum_list (map revenue inc) = 0 then None
                  else Some (Finite (sum_list (map grossProfit inc)
                                       / sum_list (map revenue inc))))"
    unfolding m by (simp add: short_inc num_div_def)
  have c7: "length inc < 4 \<and> in_int64 (sum_list (map revenue inc))
          \<and> in_int64 (sum_list (map netIncome inc)) \<longrightarrow>
        map_option ttm_net_income_margin (calculate_financial_metrics ir cr)
          = Some (if sum_list (map revenue inc) = 0 then None
                  else Some (Finite (sum_list (map netIncome inc)
                                       / sum_list (map revenue inc))))"
    unfolding m by (simp add: short_inc num_div_def)
  have c8: "length inc < 4 \<longrightarrow>
        map_option ttm_fcf_per_share (calculate_financial_metrics ir cr)
          = Some (if weightedAverageShsOut (last inc) = 0 then None
                  else if sum_list (map weightedAverageShsOut inc) = 0 then Some NonFinite
                  else Some (Finite (ttm_sum (map freeCashFlow cf)
                                       / (sum_list (map weightedAverageShsOut inc)
                                            / real (length inc)))))"
    unfolding m using assms(3) by (simp add: shares num_div_def mean_def)
  have c9: "length cf < 4 \<and> in_int64 (sum_list (map freeCashFlow cf)) \<longrightarrow>
        ttm_sum (map freeCashFlow cf) = sum_list (map freeCashFlow cf)"
    by (simp add: short_cf)
  from c1 c2 c3 c4 c5 c6 c7 c8 c9 show ?thesis by blast
qed

theorem ttm_over_short_history_witness:
  "map_option ttm_revenue
     (calculate_financial_metrics (ok_response (take 2 example_income))
        (ok_response (take 3 example_cashflow))) = Some 30
   \<and> map_option ttm_gross_profit
     (calculate_financial_metrics (ok_response (take 2 example_income))
        (ok_response (take 3 example_cashflow))) = Some 12
   \<and> map_option ttm_net_income
     (calculate_financial_metrics (ok_response (take 2 example_income))
        (ok_response (take 3 example_cashflow))) = Some 3
   \<and> map_option ttm_eps
     (calculate_financial_metrics (ok_response (take 2 example_income))
        (ok_response (take 3 example_cashflow))) = Some 3
   \<and> map_option ttm_free_cash_flow
     (calculate_financial_metrics (ok_response (take 2 example_income))
        (ok_response (take 3 example_cashflow))) = Some 9
   \<and> map_option ttm_gross_margin
     (calculate_financial_metrics (ok_response (take 2 example_income))
        (ok_response (take 3 example_cashflow))) = Some (Some (Finite (2 / 5)))
   \<and> map_option ttm_net_income_margin
     (calculate_financial_metrics (ok_response (take 2 example_income))
        (ok_response (take 3 example_cashflow))) = Some (Some (Finite (1 / 10)))
   \<and> map_option ttm_fcf_per_share
     (calculate_financial_metrics (ok_response (take 2 example_income))
        (ok_response (take 3 example_cashflow))) = Some (Some (Finite (9 / 100)))
   \<and> map_option ttm_free_cash_flow
     (calculate_financial_metrics (ok_response (take 2 example_income))
        (ok_response example_cashflow)) = Some 18"
proof -
  have h:
    "status_code (ok_response (take 2 example_income)) = 200"
    "json (ok_response (take 2 example_income)) = rev (take 2 example_income)"
    "take 2 example_income \<noteq> []"
    "status_code (ok_response (take 3 example_cashflow)) = 200"
    "json (ok_response (take 3 example_cashflow)) = rev (take 3 example_cashflow)"
    "take 3 example_cashflow \<noteq> []"
    by (simp_all add: ok_response_def example_income_def example_cashflow_def)
  have long: "map_option ttm_free_cash_flow
     (calculate_financial_metrics (ok_response (take 2 example_income))
        (ok_response example_cashflow)) = Some 18"
    unfolding calculate_financial_metrics_chronological
      [OF h(1-3) example_responses example_cashflow_nonempty] example_cashflow_ttm
    by simp
  have l: "length (take 2 example_income) < 4" "length (take 3 example_cashflow) < 4"
    by (simp_all add: example_income_def example_cashflow_def)
  have v:
    "sum_list (map revenue (take 2 example_income)) = 30"
    "sum_list (map grossProfit (take 2 example_income)) = 12"
    "sum_list (map netIncome (take 2 example_income)) = 3"
    "sum_list (map eps (take 2 example_income)) = 3"
    "sum_list (map weightedAverageShsOut (take 2 example_income)) = 200"
    "weightedAverageShsOut (last (take 2 example_income)) = 100"
    "real (length (take 2 example_income)) = 2"
    "sum_list (map freeCashFlow (take 3 example_cashflow)) = 9"
    by (simp_all add: example_income_def example_cashflow_def quarter_def)
  have r: "in_int64 30" "in_int64 12" "in_int64 3" "in_int64 9"
    by (simp_all add: in_int64_def)
  note t = ttm_over_short_history [OF h, unfolded v]
  from t l r have f: "ttm_sum (map freeCashFlow (take 3 example_cashflow)) = 9"
    by blast
  from t l r long show ?thesis
    unfolding f by simp
qed

end
